theory Spec2Isabelle
  imports Complex_Main "HOL-Library.AList"
begin

section \<open>Tensors and the tensor operations the notebooks call\<close>

text \<open>
  The notebooks are Python scripts over an external array framework. A tensor is modelled
  as its shape together with its entries in row-major order. Entries are reals: the
  rounding of 32-bit floats is not modelled. The theorems below concern which state a
  call reads and writes, the shapes it produces and the order in which objects are
  tracked; the concrete evaluations use small whole numbers only, which 32-bit floats
  represent exactly.
\<close>

datatype tensor = Tensor (shape: "nat list") (data: "real list")

text \<open>A tensor of the framework holds as many entries as its shape says.\<close>

definition tensor_ok :: "tensor \<Rightarrow> bool" where
  "tensor_ok t \<longleftrightarrow> length (data t) = prod_list (shape t)"

datatype error =
    ValueError
  | InvalidArgumentError
  | AttributeError
  | TypeError
  | IndexError
  | NotModelled

definition tf_zeros :: "nat list \<Rightarrow> tensor" where
  "tf_zeros s = Tensor s (replicate (prod_list s) 0)"

definition tf_ones :: "nat list \<Rightarrow> tensor" where
  "tf_ones s = Tensor s (replicate (prod_list s) 1)"

text \<open>
  \<^verbatim>\<open>tf.random_normal_initializer()(shape=...)\<close> and the \<^verbatim>\<open>'random_normal'\<close> initializer
  draw their entries at random. The draws are a parameter: \<open>samples i\<close> is the \<open>i\<close>-th
  entry drawn, so the shape is fixed by the call and the values are arbitrary.
\<close>

definition random_normal :: "(nat \<Rightarrow> real) \<Rightarrow> nat list \<Rightarrow> tensor" where
  "random_normal samples s = Tensor s (map samples [0..<prod_list s])"

text \<open>
  \<^verbatim>\<open>tf.matmul(a, b)\<close> on two matrices. The inner dimensions must agree, and a
  scalar or a vector is refused. Operands of rank three or more are outside this model.
\<close>

fun tf_matmul :: "tensor \<Rightarrow> tensor \<Rightarrow> error + tensor" where
  "tf_matmul (Tensor [n, d] xs) (Tensor [d', u] ws) =
     (if d = d'
      then Inr (Tensor [n, u]
             (concat (map (\<lambda>i. map (\<lambda>j. sum_list (map (\<lambda>k. xs ! (i * d + k) * ws ! (k * u + j)) [0..<d]))
                                  [0..<u])
                          [0..<n])))
      else Inl InvalidArgumentError)"
| "tf_matmul a c =
     (if length (shape a) < 2 \<or> length (shape c) < 2 then Inl InvalidArgumentError
      else Inl NotModelled)"

text \<open>
  \<^verbatim>\<open>a + b\<close> on tensors: entrywise on equal shapes, and a vector added to every row of a
  matrix whose row length it has (the bias of a dense layer). Broadcasting of
  dimensions of size one is outside this model.
\<close>

definition tf_add :: "tensor \<Rightarrow> tensor \<Rightarrow> error + tensor" where
  "tf_add a c =
     (if shape a = shape c
      then Inr (Tensor (shape a) (map2 (+) (data a) (data c)))
      else (case (shape a, shape c) of
              ([n, u], [v]) \<Rightarrow>
                (if u = v
                 then Inr (Tensor [n, u]
                        (concat (map (\<lambda>i. map (\<lambda>j. data a ! (i * u + j) + data c ! j) [0..<u])
                                     [0..<n])))
                 else if u = 1 \<or> v = 1 then Inl NotModelled
                 else Inl InvalidArgumentError)
            | _ \<Rightarrow> Inl NotModelled))"

text \<open>\<^verbatim>\<open>tf.reduce_sum(t, axis=0)\<close>: the sum over the first axis; a scalar has no axis 0.\<close>

definition tf_reduce_sum_axis0 :: "tensor \<Rightarrow> error + tensor" where
  "tf_reduce_sum_axis0 t =
     (case shape t of
        [] \<Rightarrow> Inl InvalidArgumentError
      | n # rest \<Rightarrow>
          Inr (Tensor rest
                 (map (\<lambda>j. sum_list (map (\<lambda>i. data t ! (i * prod_list rest + j)) [0..<n]))
                      [0..<prod_list rest])))"

section \<open>The Layer base class\<close>

text \<open>
  Modelled from the spec: the base class \<^verbatim>\<open>layers.Layer\<close> belongs to the framework the
  notebooks import and is not among the repository's files. The spec's data model says
  that a layer "holds zero or more named weight tensors (trainable or not)" and that
  weights are "an ordered collection of numeric tensors with fixed shapes, mutable in
  place"; the notebooks say that variables are "automatically tracked by the layer upon
  being set as layer attributes", that a non-trainable variable is "part of
  \<^verbatim>\<open>layer.weights\<close>, but it gets categorized as a non-trainable weight", that
  "\<^verbatim>\<open>__call__\<close> will automatically run \<^verbatim>\<open>build\<close> the first time it is called", and that
  \<^verbatim>\<open>layer.losses\<close> "is reset at the start of every \<^verbatim>\<open>__call__\<close> to the top-level layer".
  The definitions of this section follow these sentences.

  Variables are mutable objects that a layer reaches both through its attributes and
  through its weight lists, so a layer owns a heap of variables and refers to them by
  position. A reference is the position at which the variable was created.
\<close>

record Variable =
  var_value :: tensor
  var_trainable :: bool

record Layer =
  built :: bool
  heap :: "Variable list"
  trainable_vars :: "nat list"
  non_trainable_vars :: "nat list"
  own_losses :: "tensor list"

definition Layer_init :: Layer where
  "Layer_init = \<lparr>built = False, heap = [], trainable_vars = [], non_trainable_vars = [],
                 own_losses = []\<rparr>"

text \<open>\<^verbatim>\<open>tf.Variable(initial_value=v, trainable=t)\<close>: a new variable object.\<close>

definition tf_Variable :: "tensor \<Rightarrow> bool \<Rightarrow> 'a Layer_scheme \<Rightarrow> nat \<times> 'a Layer_scheme" where
  "tf_Variable v t self =
     (length (heap self), self\<lparr>heap := heap self @ [\<lparr>var_value = v, var_trainable = t\<rparr>]\<rparr>)"

text \<open>
  \<^verbatim>\<open>self.attr = variable\<close>: the assignment tracks the variable, once, in the list of its
  category. A reference to no variable cannot arise in Python; the model leaves the
  layer as it is.
\<close>

definition setattr_Variable :: "nat \<Rightarrow> 'a Layer_scheme \<Rightarrow> 'a Layer_scheme" where
  "setattr_Variable r self =
     (if length (heap self) \<le> r then self
      else if r \<in> set (trainable_vars self) \<or> r \<in> set (non_trainable_vars self) then self
      else if var_trainable (heap self ! r)
      then self\<lparr>trainable_vars := trainable_vars self @ [r]\<rparr>
      else self\<lparr>non_trainable_vars := non_trainable_vars self @ [r]\<rparr>)"

text \<open>The properties \<^verbatim>\<open>trainable_weights\<close>, \<^verbatim>\<open>non_trainable_weights\<close> and \<^verbatim>\<open>weights\<close> of a
  layer without sublayers.\<close>

definition trainable_weights :: "'a Layer_scheme \<Rightarrow> nat list" where
  "trainable_weights self = trainable_vars self"

definition non_trainable_weights :: "'a Layer_scheme \<Rightarrow> nat list" where
  "non_trainable_weights self = non_trainable_vars self"

definition weights :: "'a Layer_scheme \<Rightarrow> nat list" where
  "weights self = trainable_weights self @ non_trainable_weights self"

text \<open>The values of the weights, in the order of \<^verbatim>\<open>weights\<close> (\<^verbatim>\<open>get_weights()\<close>).\<close>

definition get_weights :: "'a Layer_scheme \<Rightarrow> tensor list" where
  "get_weights self = map (\<lambda>r. var_value (heap self ! r)) (weights self)"

text \<open>
  \<^verbatim>\<open>variable.assign_add(delta)\<close>: adds in place; the shapes must be equal.
\<close>

definition assign_add :: "nat \<Rightarrow> tensor \<Rightarrow> 'a Layer_scheme \<Rightarrow> error + 'a Layer_scheme" where
  "assign_add r delta self =
     (if length (heap self) \<le> r then Inl AttributeError
      else if shape (var_value (heap self ! r)) \<noteq> shape delta then Inl InvalidArgumentError
      else Inr (self\<lparr>heap := (heap self)
                  [r := (heap self ! r)\<lparr>var_value :=
                     Tensor (shape delta) (map2 (+) (data (var_value (heap self ! r))) (data delta))\<rparr>]\<rparr>))"

text \<open>The reset of the losses a layer has collected, for a layer without sublayers.\<close>

definition Layer_clear_losses :: "'a Layer_scheme \<Rightarrow> 'a Layer_scheme" where
  "Layer_clear_losses self = self\<lparr>own_losses := []\<rparr>"

text \<open>The \<^verbatim>\<open>build\<close> a class inherits when it defines none: it creates nothing.\<close>

definition Layer_build :: "'a Layer_scheme \<Rightarrow> nat list \<Rightarrow> error + 'a Layer_scheme" where
  "Layer_build self input_shape = Inr self"

text \<open>
  \<^verbatim>\<open>layer(inputs)\<close>, that is \<^verbatim>\<open>Layer.__call__\<close>. The class gives its own \<open>clear\<close> (the
  reset of its losses and of its sublayers'), \<open>build\<close> and \<open>call\<close>. \<open>top_level\<close> says
  whether the call is made from outside any layer; a call made inside another layer's
  \<^verbatim>\<open>call\<close> does not reset the losses. A layer not yet built is built on the shape of
  the input and marked built; an exception leaves through \<open>Inl\<close>.
\<close>

definition Layer_dunder_call ::
  "('a Layer_scheme \<Rightarrow> 'a Layer_scheme) \<Rightarrow>
   ('a Layer_scheme \<Rightarrow> nat list \<Rightarrow> error + 'a Layer_scheme) \<Rightarrow>
   ('a Layer_scheme \<Rightarrow> tensor \<Rightarrow> error + tensor \<times> 'a Layer_scheme) \<Rightarrow>
   bool \<Rightarrow> 'a Layer_scheme \<Rightarrow> tensor \<Rightarrow> error + tensor \<times> 'a Layer_scheme" where
  "Layer_dunder_call clear build call top_level self inputs =
     (let self1 = (if top_level then clear self else self) in
      case (if built self1 then Inr self1
            else (case build self1 (shape inputs) of
                    Inl e \<Rightarrow> Inl e
                  | Inr self2 \<Rightarrow> Inr (self2\<lparr>built := True\<rparr>))) of
        Inl e \<Rightarrow> Inl e
      | Inr self3 \<Rightarrow> call self3 inputs)"

section \<open>The layers of the notebook on custom layers\<close>

subsection \<open>Linear, with its variables created in the constructor\<close>

text \<open>
  \<^verbatim>\<open>
  class Linear(layers.Layer):
      def __init__(self, units=32, input_dim=32):
          super(Linear, self).__init__()
          w_init = tf.random_normal_initializer()
          self.w = tf.Variable(initial_value=w_init(shape=(input_dim, units), dtype='float32'),
                               trainable=True)
          b_init = tf.zeros_initializer()
          self.b = tf.Variable(initial_value=b_init(shape=(units,), dtype='float32'),
                               trainable=True)
      def call(self, inputs):
          return tf.matmul(inputs, self.w) + self.b
  \<close>
  The notebook defines several classes named \<^verbatim>\<open>Linear\<close>, one after the other; this is
  the first. \<open>units\<close> and \<open>input_dim\<close> are Python integers; a negative dimension makes
  the initializer raise. An attribute that refers to no variable of the heap cannot arise
  from the constructor; \<^verbatim>\<open>call\<close> on such a record reports \<^verbatim>\<open>AttributeError\<close>.
\<close>

record Linear = Layer +
  w :: nat
  b :: nat

definition Linear_init :: "int \<Rightarrow> int \<Rightarrow> (nat \<Rightarrow> real) \<Rightarrow> error + Linear" where
  "Linear_init units input_dim samples =
     (if input_dim < 0 \<or> units < 0 then Inl InvalidArgumentError
      else
        let self0 = Layer_init;
            (wr, self1) = tf_Variable (random_normal samples [nat input_dim, nat units]) True self0;
            self2 = setattr_Variable wr self1;
            (br, self3) = tf_Variable (tf_zeros [nat units]) True self2;
            self4 = setattr_Variable br self3
        in Inr (Layer.extend self4 (Linear.fields wr br)))"

definition Linear_call :: "Linear \<Rightarrow> tensor \<Rightarrow> error + tensor \<times> Linear" where
  "Linear_call self inputs =
     (if length (heap self) \<le> Linear.w self \<or> length (heap self) \<le> Linear.b self
      then Inl AttributeError
      else case tf_matmul inputs (var_value (heap self ! Linear.w self)) of
             Inl e \<Rightarrow> Inl e
           | Inr xw \<Rightarrow>
               (case tf_add xw (var_value (heap self ! Linear.b self)) of
                  Inl e \<Rightarrow> Inl e
                | Inr y \<Rightarrow> Inr (y, self)))"

definition Linear_dunder_call :: "Linear \<Rightarrow> tensor \<Rightarrow> error + tensor \<times> Linear" where
  "Linear_dunder_call = Layer_dunder_call Layer_clear_losses Layer_build Linear_call True"

subsection \<open>ComputeSum, with a non-trainable variable\<close>

text \<open>
  \<^verbatim>\<open>
  class ComputeSum(layers.Layer):
      def __init__(self, input_dim):
          super(ComputeSum, self).__init__()
          self.total = tf.Variable(initial_value=tf.zeros((input_dim,)), trainable=False)
      def call(self, inputs):
          self.total.assign_add(tf.reduce_sum(inputs, axis=0))
          return self.total
  \<close>
  The value returned is the value \<^verbatim>\<open>total\<close> holds when \<^verbatim>\<open>call\<close> returns.
\<close>

record ComputeSum = Layer +
  total :: nat

definition ComputeSum_init :: "int \<Rightarrow> error + ComputeSum" where
  "ComputeSum_init input_dim =
     (if input_dim < 0 then Inl InvalidArgumentError
      else
        let self0 = Layer_init;
            (tr, self1) = tf_Variable (tf_zeros [nat input_dim]) False self0;
            self2 = setattr_Variable tr self1
        in Inr (Layer.extend self2 (ComputeSum.fields tr)))"

definition ComputeSum_call :: "ComputeSum \<Rightarrow> tensor \<Rightarrow> error + tensor \<times> ComputeSum" where
  "ComputeSum_call self inputs =
     (case tf_reduce_sum_axis0 inputs of
        Inl e \<Rightarrow> Inl e
      | Inr s \<Rightarrow>
          (case assign_add (total self) s self of
             Inl e \<Rightarrow> Inl e
           | Inr self1 \<Rightarrow> Inr (var_value (heap self1 ! total self1), self1)))"

definition ComputeSum_dunder_call :: "ComputeSum \<Rightarrow> tensor \<Rightarrow> error + tensor \<times> ComputeSum" where
  "ComputeSum_dunder_call = Layer_dunder_call Layer_clear_losses Layer_build ComputeSum_call True"

subsection \<open>Linear, with its weights created in build\<close>




text \<open>
  \<^verbatim>\<open>
  class Linear(layers.Layer):
      def __init__(self, units=32):
          super(Linear, self).__init__()
          self.units = units
      def build(self, input_shape):
          self.w = self.add_weight(shape=(input_shape[-1], self.units),
                                   initializer='random_normal', trainable=True)
          self.b = self.add_weight(shape=(self.units,),
                                   initializer='random_normal', trainable=True)
      def call(self, inputs):
          return tf.matmul(inputs, self.w) + self.b
  \<close>
  Before \<^verbatim>\<open>build\<close> the object has no attribute \<^verbatim>\<open>w\<close> or \<^verbatim>\<open>b\<close>. \<open>rng k\<close> are the draws
  of the \<open>k\<close>-th random tensor. The state an object is left in when an exception leaves
  a method is not modelled.
\<close>

record LinearBuild = Layer +
  units :: int
  w :: "nat option"
  b :: "nat option"





subsection \<open>Linear, with get_config\<close>

text \<open>
  A config is a Python dict from strings to values; the association list keeps the
  order of insertion, as the dict does.
\<close>

datatype py_value = PyNone | PyInt int | PyStr string | PyBool bool


text \<open>
  \<^verbatim>\<open>
  class Linear(layers.Layer):
      def __init__(self, units=32):
          super(Linear, self).__init__()
          self.units = units
      def build(self, input_shape):
          self.w = self.add_weights(shape=(input_shape[-1], self.units), ...)
          self.b = self.add_weights(shape=(self.unists,), ...)
      def call(self, inputs):
          return tf.matmul(inputs, self.w) + self.b
      def get_config(self):
          return {'units': self.units}

  def from_config(cls, config):
      return cls(**config)
  \<close>
  \<^verbatim>\<open>units\<close> is stored as it is given. \<^verbatim>\<open>build\<close> asks the object for \<^verbatim>\<open>add_weights\<close>, which
  no layer has (the method is \<^verbatim>\<open>add_weight\<close>): the lookup raises before any argument is
  evaluated. \<^verbatim>\<open>cls(**config)\<close> passes every key of the config as a keyword argument; the
  constructor takes \<^verbatim>\<open>units\<close> only, and its default is 32.
\<close>

record LinearConfig = Layer +
  units :: py_value


definition LinearConfig_build :: "LinearConfig \<Rightarrow> nat list \<Rightarrow> error + LinearConfig" where
  "LinearConfig_build self input_shape = Inl AttributeError"

definition LinearConfig_call :: "LinearConfig \<Rightarrow> tensor \<Rightarrow> error + tensor \<times> LinearConfig" where
  "LinearConfig_call self inputs = Inl AttributeError"

definition LinearConfig_dunder_call ::
  "LinearConfig \<Rightarrow> tensor \<Rightarrow> error + tensor \<times> LinearConfig" where
  "LinearConfig_dunder_call =
     Layer_dunder_call Layer_clear_losses LinearConfig_build LinearConfig_call True"



text \<open>
  \<^verbatim>\<open>
  class Linear(layers.Layer):
      def __init__(self, units=32, **kwargs):
          super(Linear, self).__init__(**kwargs)
          self.units = units
      ...
      def get_config(self):
          config = super(Linear, self).get_config()
          config.update({'units': self.units})
          return config
  \<close>
  The base constructor and the base \<^verbatim>\<open>get_config\<close> are the framework's, and their code is
  not in the repository, so they are parameters of the model: \<open>Layer_init_kwargs\<close> takes
  the keyword arguments the class passes on and gives the attributes the base class
  keeps, or raises; \<open>Layer_get_config\<close> gives the base class's config from these
  attributes. Nothing is said of what they compute. \<^verbatim>\<open>units\<close> is bound by name, so a
  second \<^verbatim>\<open>units\<close> among the keyword arguments is a \<^verbatim>\<open>TypeError\<close>; \<^verbatim>\<open>cls(**config)\<close> binds
  the key \<^verbatim>\<open>units\<close> of the config to the parameter and passes the other keys on.
  \<^verbatim>\<open>config.update\<close> replaces the value of a key that is there and appends a new key.
\<close>

record 'b LinearKwargs = Layer +
  base :: 'b
  units :: py_value




section \<open>The notebook's own runs\<close>

text \<open>
  \<^verbatim>\<open>
  x = tf.ones((2, 2))
  my_sum = ComputeSum(2)
  y = my_sum(x)
  print(y.numpy())       # [2. 2.]
  y = my_sum(x)
  print(y.numpy())       # [4. 4.]
  \<close>
  The run returns both outputs, and the values of the layer's weights before the first
  call and after it.
\<close>

definition ComputeSum_script :: "error + tensor \<times> tensor \<times> tensor list \<times> tensor list" where
  "ComputeSum_script =
     (let x = tf_ones [2, 2] in
      case ComputeSum_init 2 of
        Inl e \<Rightarrow> Inl e
      | Inr my_sum \<Rightarrow>
          (case ComputeSum_dunder_call my_sum x of
             Inl e \<Rightarrow> Inl e
           | Inr (y1, my_sum1) \<Rightarrow>
               (case ComputeSum_dunder_call my_sum1 x of
                  Inl e \<Rightarrow> Inl e
                | Inr (y2, my_sum2) \<Rightarrow>
                    Inr (y1, y2, get_weights my_sum, get_weights my_sum1))))"

text \<open>
  \<^verbatim>\<open>linear_layer = Linear(4, 2)\<close> of the first class, as the constructor leaves it when the
  eight draws are 0, 1, ..., 7; and \<^verbatim>\<open>my_sum = ComputeSum(2)\<close>.
\<close>

definition linear_layer :: Linear where
  "linear_layer =
     \<lparr>built = False,
      heap = [\<lparr>var_value = Tensor [2, 4] [0, 1, 2, 3, 4, 5, 6, 7], var_trainable = True\<rparr>,
              \<lparr>var_value = Tensor [4] [0, 0, 0, 0], var_trainable = True\<rparr>],
      trainable_vars = [0, 1], non_trainable_vars = [], own_losses = [],
      Linear.w = 0, Linear.b = 1\<rparr>"

definition my_sum :: ComputeSum where
  "my_sum =
     \<lparr>built = False,
      heap = [\<lparr>var_value = Tensor [2] [0, 0], var_trainable = False\<rparr>],
      trainable_vars = [], non_trainable_vars = [0], own_losses = [],
      ComputeSum.total = 0\<rparr>"






section \<open>Lemmas\<close>

subsection \<open>Calls of Linear and ComputeSum\<close>

lemma Linear_call_frame:
  "Linear_call l x = Inr (y, l') \<Longrightarrow> l' = l"
  by (auto simp: Linear_call_def split: if_splits sum.splits)

lemma Linear_dunder_call_state:
  assumes "Linear_dunder_call l x = Inr (y, l')"
  shows "l' = l\<lparr>built := True, own_losses := []\<rparr>"
  using assms
  by (auto simp: Linear_dunder_call_def Layer_dunder_call_def Layer_clear_losses_def
        Layer_build_def Let_def dest!: Linear_call_frame split: if_splits)

lemma Linear_dunder_call_again:
  assumes "Linear_dunder_call l x = Inr (y, l')"
  shows "Linear_dunder_call l' x = Inr (y, l')"
  using assms unfolding Linear_dunder_call_state [OF assms]
  by (auto simp: Linear_dunder_call_def Layer_dunder_call_def Layer_clear_losses_def
        Layer_build_def Let_def Linear_call_def split: if_splits sum.splits)

lemma ComputeSum_dunder_call_total:
  assumes "ComputeSum_dunder_call c x = Inr (y, c')"
  shows "\<exists>s. tf_reduce_sum_axis0 x = Inr s \<and>
          y = Tensor (shape s) (map2 (+) (data (var_value (heap c ! total c))) (data s)) \<and>
          var_value (heap c' ! total c') = y"
  using assms
  by (auto simp: ComputeSum_dunder_call_def
      Layer_dunder_call_def Layer_clear_losses_def Layer_build_def ComputeSum_call_def
      assign_add_def Let_def split: if_splits sum.splits)

subsection \<open>Shapes, and the lazily built Linear\<close>


lemma tensor_ok_initial [simp]:
  "tensor_ok (tf_zeros s)" "tensor_ok (tf_ones s)" "tensor_ok (random_normal samples s)"
  by (simp_all add: tensor_ok_def tf_zeros_def tf_ones_def random_normal_def)



lemma tf_reduce_sum_axis0_ok:
  "tf_reduce_sum_axis0 t = Inr s \<Longrightarrow> shape s = tl (shape t) \<and> tensor_ok s"
  by (auto simp: tf_reduce_sum_axis0_def tensor_ok_def split: list.splits)



subsection \<open>Configs\<close>

text \<open>
  The first class with \<^verbatim>\<open>get_config\<close> cannot be built as it is written: the first call
  of a new layer ends in the \<^verbatim>\<open>AttributeError\<close> of \<^verbatim>\<open>self.add_weights\<close>. The notebook never
  calls it.
\<close>

lemma LinearConfig_first_call_raises:
  "\<not> built l \<Longrightarrow> LinearConfig_dunder_call l x = Inl AttributeError"
  by (simp add: LinearConfig_dunder_call_def Layer_dunder_call_def Layer_clear_losses_def
      LinearConfig_build_def)









section \<open>Properties of the layers\<close>

subsection \<open>C3: which calls are pure\<close>

text \<open>
  C3, counterexample. The notebook's own run of \<^verbatim>\<open>ComputeSum\<close> on \<^verbatim>\<open>tf.ones((2, 2))\<close>: the first call returns
  \<^verbatim>\<open>[2. 2.]\<close>, the second, on the same input, \<^verbatim>\<open>[4. 4.]\<close>, and the first call changes
  the layer's only weight from \<^verbatim>\<open>[0. 0.]\<close> to \<^verbatim>\<open>[2. 2.]\<close>. So a call is not a pure
  transformation for every layer.
\<close>

theorem ComputeSum_call_not_pure:
  "ComputeSum_script =
     Inr (Tensor [2] [2, 2], Tensor [2] [4, 4], [Tensor [2] [0, 0]], [Tensor [2] [2, 2]])"
  by code_simp

text \<open>
  C3, as amended. Calling the \<^verbatim>\<open>Linear\<close> layer leaves its variables as they are (the heap
  of variables, the list of weights, their values and the attributes \<^verbatim>\<open>w\<close> and \<^verbatim>\<open>b\<close>), and
  calling it again on the same input returns the same output. Calling \<^verbatim>\<open>ComputeSum\<close>
  updates its weight: the call adds the sums of the input's columns to \<^verbatim>\<open>total\<close> and
  returns the new value of \<^verbatim>\<open>total\<close>.
\<close>

theorem call_reads_or_updates_weights:
  "(Linear_dunder_call l x = Inr (y, l') \<longrightarrow>
      heap l' = heap l \<and> weights l' = weights l \<and> get_weights l' = get_weights l \<and>
      Linear.w l' = Linear.w l \<and> Linear.b l' = Linear.b l \<and>
      Linear_dunder_call l' x = Inr (y, l')) \<and>
   (ComputeSum_dunder_call c x' = Inr (y', c') \<longrightarrow>
      (\<exists>s. tf_reduce_sum_axis0 x' = Inr s \<and>
           y' = Tensor (shape s) (map2 (+) (data (var_value (heap c ! total c))) (data s)) \<and>
           var_value (heap c' ! total c') = y'))"
proof (intro conjI impI)
  assume run: "Linear_dunder_call l x = Inr (y, l')"
  have st: "l' = l\<lparr>built := True, own_losses := []\<rparr>"
    by (rule Linear_dunder_call_state [OF run])
  show "heap l' = heap l" "weights l' = weights l" "get_weights l' = get_weights l"
    "Linear.w l' = Linear.w l" "Linear.b l' = Linear.b l"
    by (simp_all add: st weights_def get_weights_def trainable_weights_def
        non_trainable_weights_def)
  show "Linear_dunder_call l' x = Inr (y, l')"
    by (rule Linear_dunder_call_again [OF run])
next
  assume "ComputeSum_dunder_call c x' = Inr (y', c')"
  then show "\<exists>s. tf_reduce_sum_axis0 x' = Inr s \<and>
           y' = Tensor (shape s) (map2 (+) (data (var_value (heap c ! total c))) (data s)) \<and>
           var_value (heap c' ! total c') = y'"
    by (rule ComputeSum_dunder_call_total)
qed

theorem call_reads_or_updates_weights_witness:
  "Linear_init 4 2 real = Inr linear_layer \<and>
   Linear_dunder_call linear_layer (tf_ones [2, 2]) =
     Inr (Tensor [2, 4] [4, 6, 8, 10, 4, 6, 8, 10], linear_layer\<lparr>built := True\<rparr>) \<and>
   get_weights (linear_layer\<lparr>built := True\<rparr>) = get_weights linear_layer \<and>
   Linear_dunder_call (linear_layer\<lparr>built := True\<rparr>) (tf_ones [2, 2]) =
     Inr (Tensor [2, 4] [4, 6, 8, 10, 4, 6, 8, 10], linear_layer\<lparr>built := True\<rparr>) \<and>
   ComputeSum_init 2 = Inr my_sum \<and>
   ComputeSum_dunder_call my_sum (tf_ones [2, 2]) =
     Inr (Tensor [2] [2, 2],
          my_sum\<lparr>built := True,
                 heap := [\<lparr>var_value = Tensor [2] [2, 2], var_trainable = False\<rparr>]\<rparr>) \<and>
   tf_reduce_sum_axis0 (tf_ones [2, 2]) = Inr (Tensor [2] [2, 2])"
proof -
  have init: "Linear_init 4 2 real = Inr linear_layer"
    by code_simp
  have run: "Linear_dunder_call linear_layer (tf_ones [2, 2]) =
     Inr (Tensor [2, 4] [4, 6, 8, 10, 4, 6, 8, 10], linear_layer\<lparr>built := True\<rparr>)"
    by code_simp
  have init': "ComputeSum_init 2 = Inr my_sum"
    by code_simp
  have run': "ComputeSum_dunder_call my_sum (tf_ones [2, 2]) =
     Inr (Tensor [2] [2, 2],
          my_sum\<lparr>built := True,
                 heap := [\<lparr>var_value = Tensor [2] [2, 2], var_trainable = False\<rparr>]\<rparr>)"
    by code_simp
  have sums: "tf_reduce_sum_axis0 (tf_ones [2, 2]) = Inr (Tensor [2] [2, 2])"
    by code_simp
  note inst = call_reads_or_updates_weights
    [of linear_layer "tf_ones [2, 2]" "Tensor [2, 4] [4, 6, 8, 10, 4, 6, 8, 10]"
        "linear_layer\<lparr>built := True\<rparr>" my_sum "tf_ones [2, 2]" "Tensor [2] [2, 2]"
        "my_sum\<lparr>built := True,
                heap := [\<lparr>var_value = Tensor [2] [2, 2], var_trainable = False\<rparr>]\<rparr>"]
  from inst run have "get_weights (linear_layer\<lparr>built := True\<rparr>) = get_weights linear_layer"
    and "Linear_dunder_call (linear_layer\<lparr>built := True\<rparr>) (tf_ones [2, 2]) =
     Inr (Tensor [2, 4] [4, 6, 8, 10, 4, 6, 8, 10], linear_layer\<lparr>built := True\<rparr>)"
    by blast+
  with init run init' run' sums show ?thesis by blast
qed

subsection \<open>C10: weights created at the first call\<close>



subsection \<open>C4: from_config after get_config\<close>




end
